theory Spec2Isabelle
  imports Main
begin

section \<open>JavaScript values\<close>

text \<open>
  The two request handlers of \<^verbatim>\<open>server.js\<close> work on values that \<^verbatim>\<open>JSON.parse\<close>
  produced (the request body, the reply of the external service), and on \<^verbatim>\<open>undefined\<close>,
  the result of reading a property that is not there. Numbers are the integers (an index,
  a status code), which ECMAScript writes in plain decimal below \<open>10^21\<close>; fractions are
  left out. A string is a list of code units; an object is the list of its own properties,
  the first binding of a name being the one that counts.
\<close>

datatype jsval =
    JUndefined
  | JNull
  | JBool bool
  | JNum int
  | JStr string
  | JArr "jsval list"
  | JObj "(string \<times> jsval) list"

text \<open>\<^verbatim>\<open>!v\<close> is \<open>\<not> truthy v\<close>: the falsy values are undefined, null, false, 0 and the empty string.\<close>

fun truthy :: "jsval \<Rightarrow> bool" where
  "truthy JUndefined = False"
| "truthy JNull = False"
| "truthy (JBool b) = b"
| "truthy (JNum n) = (n \<noteq> 0)"
| "truthy (JStr s) = (s \<noteq> [])"
| "truthy (JArr xs) = True"
| "truthy (JObj kvs) = True"

text \<open>\<^verbatim>\<open>a || b\<close>\<close>

definition or_else :: "jsval \<Rightarrow> jsval \<Rightarrow> jsval" where
  "or_else a b = (if truthy a then a else b)"

text \<open>
  \<^verbatim>\<open>a === b\<close>. Primitives are compared by value. An array or an object is only equal to
  itself, and the two operands the evaluator compares come from two different
  properties of one parsed body, so that they are never the same object.
\<close>

fun strict_eq :: "jsval \<Rightarrow> jsval \<Rightarrow> bool" where
  "strict_eq JUndefined JUndefined = True"
| "strict_eq JNull JNull = True"
| "strict_eq (JBool a) (JBool b) = (a = b)"
| "strict_eq (JNum a) (JNum b) = (a = b)"
| "strict_eq (JStr a) (JStr b) = (a = b)"
| "strict_eq _ _ = False"

subsection \<open>Numbers as property names\<close>

definition digit :: "nat \<Rightarrow> char" where
  "digit d = ''0123456789'' ! d"

fun show_nat :: "nat \<Rightarrow> string" where
  "show_nat n = (if n < 10 then [digit n] else show_nat (n div 10) @ [digit (n mod 10)])"

declare show_nat.simps [simp del]

definition show_int :: "int \<Rightarrow> string" where
  "show_int i = (if i < 0 then CHR ''-'' # show_nat (nat (- i)) else show_nat (nat i))"

subsection \<open>Conversion to a string\<close>

text \<open>
  \<^verbatim>\<open>ToString\<close>, which a template literal and a computed property name \<^verbatim>\<open>o[k]\<close> apply.
  An array is the join of its elements with commas, undefined and null elements being
  empty. An object inherits \<^verbatim>\<open>Object.prototype.toString\<close>, which answers
  \<^verbatim>\<open>[object Object]\<close>, unless it has an own property \<^verbatim>\<open>toString\<close>: a parsed value is
  never callable, \<^verbatim>\<open>valueOf\<close> gives the object back, and the conversion throws a
  TypeError, here \<open>None\<close>.
\<close>

fun join_comma :: "string list \<Rightarrow> string" where
  "join_comma [] = []"
| "join_comma [s] = s"
| "join_comma (s # t # ss) = s @ '','' @ join_comma (t # ss)"

fun sequence :: "'a option list \<Rightarrow> 'a list option" where
  "sequence [] = Some []"
| "sequence (None # xs) = None"
| "sequence (Some x # xs) = (case sequence xs of None \<Rightarrow> None | Some ys \<Rightarrow> Some (x # ys))"

fun to_string :: "jsval \<Rightarrow> string option" where
  "to_string JUndefined = Some ''undefined''"
| "to_string JNull = Some ''null''"
| "to_string (JBool b) = Some (if b then ''true'' else ''false'')"
| "to_string (JNum n) = Some (show_int n)"
| "to_string (JStr s) = Some s"
| "to_string (JArr xs) =
     (case sequence (map (\<lambda>x. if x = JUndefined \<or> x = JNull then Some [] else to_string x) xs) of
        None \<Rightarrow> None
      | Some ss \<Rightarrow> Some (join_comma ss))"
| "to_string (JObj kvs) =
     (if ''toString'' \<in> fst ` set kvs then None else Some ''[object Object]'')"

subsection \<open>Reading properties\<close>

text \<open>
  The own properties of a value: the elements of an array and the code units of a string
  under their decimal indices, \<^verbatim>\<open>length\<close> for both, and the bindings of an object.
\<close>

fun own_property :: "jsval \<Rightarrow> string \<Rightarrow> jsval option" where
  "own_property (JArr xs) k =
     (if k = ''length'' then Some (JNum (int (length xs)))
      else map_of (zip (map show_nat [0..<length xs]) xs) k)"
| "own_property (JStr s) k =
     (if k = ''length'' then Some (JNum (int (length s)))
      else map_of (zip (map show_nat [0..<length s]) (map (\<lambda>c. JStr [c]) s)) k)"
| "own_property (JObj kvs) k = map_of kvs k"
| "own_property _ k = None"

text \<open>
  \<^verbatim>\<open>v.name\<close> and \<^verbatim>\<open>v[i]\<close> for the names the handlers read (\<^verbatim>\<open>quizData\<close>,
  \<^verbatim>\<open>questions\<close>, \<^verbatim>\<open>correctIndex\<close>, \<^verbatim>\<open>candidates\<close>, ...) and for a number \<^verbatim>\<open>i\<close>:
  no built-in prototype has a member of such a name, and the result is the own property
  or undefined. Reading a property of undefined or null throws a TypeError, \<open>None\<close>.
\<close>

definition get_own :: "jsval \<Rightarrow> string \<Rightarrow> jsval" where
  "get_own v name = (case own_property v name of Some x \<Rightarrow> x | None \<Rightarrow> JUndefined)"

definition get_member :: "jsval \<Rightarrow> string \<Rightarrow> jsval option" where
  "get_member v name = (if v = JUndefined \<or> v = JNull then None else Some (get_own v name))"

text \<open>
  What a display field of the feedback holds. \<open>Val v\<close> is the value \<open>v\<close>.
  \<open>InheritedOr r k d\<close> stands for the result of \<^verbatim>\<open>r[k] || d\<close> where \<open>k\<close> is not an own
  property of \<open>r\<close>: the member called \<open>k\<close> that \<open>r\<close> inherits from the built-in prototypes
  of the runtime (such as \<^verbatim>\<open>constructor\<close>) when there is one, and \<open>d\<close> otherwise. The
  runtime's library is not part of the repository, and the model does not decide it.
\<close>

datatype field = Val jsval | InheritedOr jsval string jsval

text \<open>
  A key that is undefined, null, a boolean or a number names no inherited member
  (\<^verbatim>\<open>null\<close>, \<^verbatim>\<open>true\<close>, \<^verbatim>\<open>17\<close>); the name that a string, an array or an object
  converts to may.
\<close>

fun names_no_builtin :: "jsval \<Rightarrow> bool" where
  "names_no_builtin (JStr s) = False"
| "names_no_builtin (JArr xs) = False"
| "names_no_builtin (JObj kvs) = False"
| "names_no_builtin _ = True"

text \<open>
  \<^verbatim>\<open>r[key] || d\<close> for a receiver \<open>r\<close> that is truthy (the handler makes it so) and a default
  \<open>d\<close> that is a non-empty string. \<open>None\<close> when the conversion of the key throws.
\<close>

definition index_or :: "jsval \<Rightarrow> jsval \<Rightarrow> string \<Rightarrow> field option" where
  "index_or r key d =
     (case to_string key of
        None \<Rightarrow> None
      | Some k \<Rightarrow>
          (case own_property r k of
             Some v \<Rightarrow> Some (Val (or_else v (JStr d)))
           | None \<Rightarrow>
               if names_no_builtin key then Some (Val (JStr d))
               else Some (InheritedOr r k (JStr d))))"

section \<open>The server\<close>

text \<open>
  What a handler leaves behind: the lines it wrote to the console and the requests it
  sent to the external service. The access credential is read from the environment.
\<close>

datatype log_entry =
    LogKeyNotSet
  | LogReceived string
  | LogSuccess
  | LogErrorCalling
  | LogData jsval
  | LogStatus int
  | LogRequest
  | LogErrorMessage

record request =
  url :: string
  userQuery :: string

record server =
  GEMINI_API_KEY :: "string option"
  console :: "log_entry list"
  outbound :: "request list"

record feedback_item =
  question :: jsval
  userAnswer :: field
  correctAnswer :: field
  isCorrect :: bool
  explanation :: jsval

record report =
  score :: nat
  total :: nat
  feedback :: "feedback_item list"

text \<open>
  The body a handler sends: \<^verbatim>\<open>{ error: message }\<close>, the score report, or the parsed quiz
  as it is. A handler either responds with a status and a body, or an exception leaves it.
\<close>

datatype body = ErrorBody string | Report report | Payload jsval

datatype result = Responded nat body | Uncaught

section \<open>Evaluating a quiz\<close>

text \<open>
  The callback of \<^verbatim>\<open>questions.forEach\<close> for the question \<open>q\<close> at position \<open>i\<close>.
  \<open>None\<close> is a TypeError: \<^verbatim>\<open>question.correctIndex\<close> on an entry that is null or
  undefined, or a key that does not convert.
\<close>

definition score_question :: "jsval \<Rightarrow> jsval \<Rightarrow> nat \<Rightarrow> feedback_item option" where
  "score_question userAnswers q i =
     (case get_member q ''correctIndex'' of
        None \<Rightarrow> None
      | Some ci \<Rightarrow>
          let correctIndex = or_else ci (JNum 0);
              userAnsIndex = get_own userAnswers (show_nat i);
              correct = strict_eq correctIndex userAnsIndex;
              options = or_else (get_own q ''options'') (JArr [])
          in (case index_or options userAnsIndex ''No answer provided'' of
                None \<Rightarrow> None
              | Some ua \<Rightarrow>
                  (case index_or options correctIndex ''Correct answer missing'' of
                     None \<Rightarrow> None
                   | Some ca \<Rightarrow>
                       Some \<lparr> question = or_else (get_own q ''question'') (JStr ''Question text missing''),
                              userAnswer = ua,
                              correctAnswer = ca,
                              isCorrect = correct,
                              explanation = or_else (get_own q ''explanation'')
                                              (JStr ''No explanation provided.'') \<rparr>)))"

text \<open>The loop, with its two accumulators \<^verbatim>\<open>score\<close> and \<^verbatim>\<open>feedback\<close>.\<close>

fun forEach :: "jsval \<Rightarrow> jsval list \<Rightarrow> nat \<Rightarrow> nat \<times> feedback_item list
    \<Rightarrow> (nat \<times> feedback_item list) option" where
  "forEach userAnswers [] i acc = Some acc"
| "forEach userAnswers (q # qs) i (sc, fb) =
     (case score_question userAnswers q i of
        None \<Rightarrow> None
      | Some item \<Rightarrow>
          forEach userAnswers qs (Suc i) (if isCorrect item then Suc sc else sc, fb @ [item]))"

text \<open>\<^verbatim>\<open>app.post('/api/evaluate-quiz', ...)\<close> on the request body \<open>b\<close>.\<close>

definition evaluate_quiz :: "server \<Rightarrow> jsval \<Rightarrow> result \<times> server" where
  "evaluate_quiz srv b =
     (case get_member b ''quizData'' of
        None \<Rightarrow> (Uncaught, srv)
      | Some quizData \<Rightarrow>
          let userAnswers = get_own b ''userAnswers'' in
          if \<not> truthy quizData \<or> \<not> truthy userAnswers
          then (Responded 400 (ErrorBody ''Missing quiz data or user answers.''), srv)
          else
            (case or_else (get_own quizData ''questions'') quizData of
               JArr questions \<Rightarrow>
                 (case forEach userAnswers questions 0 (0, []) of
                    None \<Rightarrow> (Uncaught, srv)
                  | Some (sc, fb) \<Rightarrow>
                      (Responded 200
                         (Report \<lparr> score = sc, total = length questions, feedback = fb \<rparr>), srv))
             | _ \<Rightarrow> (Uncaught, srv)))"

section \<open>Generating a quiz\<close>

text \<open>\<^verbatim>\<open>s.includes(sub)\<close> on strings.\<close>

fun str_includes :: "string \<Rightarrow> string \<Rightarrow> bool" where
  "str_includes [] sub = (sub = [])"
| "str_includes (c # cs) sub = (take (length sub) (c # cs) = sub \<or> str_includes cs sub)"

text \<open>The API key check of line 27, on \<^verbatim>\<open>process.env.GEMINI_API_KEY\<close>.\<close>

definition key_not_set :: "string option \<Rightarrow> bool" where
  "key_not_set apiKey =
     (case apiKey of
        None \<Rightarrow> True
      | Some k \<Rightarrow> k = [] \<or> k = ''paste_your_long_api_key_here'' \<or> str_includes k ''!!!'')"

text \<open>
  How \<^verbatim>\<open>axios.post\<close> ends: it resolves with the reply's data on a 2xx status, and
  rejects with an error that carries the response (any other status), only the request
  (no response was received), or neither.
\<close>

datatype axios_outcome =
    Resolved jsval
  | RejectedStatus int jsval
  | RejectedNoResponse
  | RejectedSetup

text \<open>
  What the \<^verbatim>\<open>catch\<close> block receives: an axios error with a response, an axios error with
  a request only, or an error with neither, which is also what a TypeError or the
  SyntaxError of \<^verbatim>\<open>JSON.parse\<close> thrown inside the \<^verbatim>\<open>try\<close> block is.
\<close>

datatype caught = WithResponse int jsval | WithRequest | Plain

definition log :: "log_entry \<Rightarrow> server \<Rightarrow> server" where
  "log e srv = srv\<lparr> console := console srv @ [e] \<rparr>"

text \<open>
  \<^verbatim>\<open>error.response.data.error.message.includes("API key not valid")\<close>. \<open>None\<close> is a
  TypeError: a step of the path is undefined or null, or the message is neither a string
  nor an array (\<^verbatim>\<open>Array.prototype.includes\<close> looks for an element).
\<close>

definition message_includes :: "jsval \<Rightarrow> bool option" where
  "message_includes data =
     (case get_member data ''error'' of
        None \<Rightarrow> None
      | Some e \<Rightarrow>
          (case get_member e ''message'' of
             Some (JStr m) \<Rightarrow> Some (str_includes m ''API key not valid'')
           | Some (JArr ms) \<Rightarrow> Some (JStr ''API key not valid'' \<in> set ms)
           | _ \<Rightarrow> None))"

definition generic_failure :: result where
  "generic_failure =
     Responded 500 (ErrorBody ''Failed to generate quiz. An error occurred on the server.'')"

text \<open>The \<^verbatim>\<open>catch\<close> block. An exception thrown inside it leaves the handler.\<close>

definition on_error :: "caught \<Rightarrow> server \<Rightarrow> result \<times> server" where
  "on_error err srv =
     (let srv1 = log LogErrorCalling srv in
      case err of
        WithResponse status data \<Rightarrow>
          (let srv2 = log (LogStatus status) (log (LogData data) srv1) in
           if status = 400 then
             (case message_includes data of
                None \<Rightarrow> (Uncaught, srv2)
              | Some True \<Rightarrow>
                  (Responded 500
                     (ErrorBody ''Failed to generate quiz. Your API key is not valid.''), srv2)
              | Some False \<Rightarrow> (generic_failure, srv2))
           else (generic_failure, srv2))
      | WithRequest \<Rightarrow> (generic_failure, log LogRequest srv1)
      | Plain \<Rightarrow> (generic_failure, log LogErrorMessage srv1))"

text \<open>\<^verbatim>\<open>geminiResponse.data.candidates[0].content.parts[0].text\<close>\<close>

definition reply_text :: "jsval \<Rightarrow> jsval option" where
  "reply_text data =
     Option.bind (get_member data ''candidates'') (\<lambda>cs.
     Option.bind (get_member cs ''0'') (\<lambda>c.
     Option.bind (get_member c ''content'') (\<lambda>content.
     Option.bind (get_member content ''parts'') (\<lambda>ps.
     Option.bind (get_member ps ''0'') (\<lambda>p.
     get_member p ''text'')))))"

definition apiUrl :: "string option \<Rightarrow> string" where
  "apiUrl apiKey =
     ''https://generativelanguage.googleapis.com/v1beta/models/gemini-2.5-flash-preview-09-2025:generateContent?key=''
     @ (case apiKey of Some k \<Rightarrow> k | None \<Rightarrow> ''undefined'')"

definition userQuery_of :: "string \<Rightarrow> string" where
  "userQuery_of topic =
     ''Generate the 10-question quiz on the topic: '' @ [CHR 0x22] @ topic @ [CHR 0x22]"

text \<open>
  \<^verbatim>\<open>app.post('/api/generate-quiz', ...)\<close> on the request body \<open>b\<close>. The external service
  is \<open>post\<close>, the outcome of \<^verbatim>\<open>axios.post\<close> for a request, and \<open>parse\<close> is the runtime's
  \<^verbatim>\<open>JSON.parse\<close> on a string, \<open>None\<close> where it throws a SyntaxError. The system
  instruction and the generation options are the same in every request and are left out
  of \<open>request\<close>. The handler is asynchronous: an exception outside the \<^verbatim>\<open>try\<close> block
  rejects its promise and no response is sent.
\<close>

definition generate_quiz ::
    "(request \<Rightarrow> axios_outcome) \<Rightarrow> (string \<Rightarrow> jsval option) \<Rightarrow> server \<Rightarrow> jsval
      \<Rightarrow> result \<times> server" where
  "generate_quiz post parse srv b =
     (case get_member b ''topic'' of
        None \<Rightarrow> (Uncaught, srv)
      | Some topic \<Rightarrow>
          if key_not_set (GEMINI_API_KEY srv) then
            (Responded 500
               (ErrorBody ''Server configuration error: API key is missing or not set. Please update backend/.env''),
             log LogKeyNotSet srv)
          else
            (case to_string topic of
               None \<Rightarrow> (Uncaught, srv)
             | Some t \<Rightarrow>
                 let srv1 = log (LogReceived t) srv;
                     req = \<lparr> url = apiUrl (GEMINI_API_KEY srv), userQuery = userQuery_of t \<rparr>;
                     srv2 = srv1\<lparr> outbound := outbound srv1 @ [req] \<rparr>
                 in (case post req of
                       Resolved data \<Rightarrow>
                         (case reply_text data of
                            None \<Rightarrow> on_error Plain srv2
                          | Some jsonString \<Rightarrow>
                              (case Option.bind (to_string jsonString) parse of
                                 None \<Rightarrow> on_error Plain srv2
                               | Some quizJson \<Rightarrow>
                                   (Responded 200 (Payload quizJson), log LogSuccess srv2)))
                     | RejectedStatus status data \<Rightarrow> on_error (WithResponse status data) srv2
                     | RejectedNoResponse \<Rightarrow> on_error WithRequest srv2
                     | RejectedSetup \<Rightarrow> on_error Plain srv2)))"

section \<open>Decimal names and own properties\<close>

lemma digit_inj: "a < 10 \<Longrightarrow> b < 10 \<Longrightarrow> digit a = digit b \<Longrightarrow> a = b"
proof -
  assume a: "a < 10" and b: "b < 10" and e: "digit a = digit b"
  have d: "distinct ''0123456789''" by simp
  have "a < length ''0123456789''" "b < length ''0123456789''" using a b by simp_all
  with d e show "a = b" unfolding digit_def by (simp only: nth_eq_iff_index_eq)
qed

lemma digit_in: "d < 10 \<Longrightarrow> digit d \<in> set ''0123456789''"
  unfolding digit_def by (rule nth_mem) simp

lemma show_nat_nonempty: "show_nat n \<noteq> []"
  by (subst show_nat.simps) simp

lemma show_nat_digits: "set (show_nat n) \<subseteq> set ''0123456789''"
proof (induction n rule: show_nat.induct)
  case (1 n)
  show ?case
  proof (cases "n < 10")
    case True
    then show ?thesis using digit_in[of n] by (subst show_nat.simps) simp
  next
    case False
    have "n mod 10 < 10" by simp
    from digit_in[OF this] 1[OF False] False show ?thesis
      by (subst show_nat.simps) simp
  qed
qed

lemma show_nat_inj: "show_nat n = show_nat m \<Longrightarrow> n = m"
proof (induction n arbitrary: m rule: show_nat.induct)
  case (1 n)
  show ?case
  proof (cases "n < 10")
    case n: True
    show ?thesis
    proof (cases "m < 10")
      case True
      with n 1(2) show ?thesis
        by (simp add: show_nat.simps[of n] show_nat.simps[of m] digit_inj)
    next
      case False
      with n 1(2) show_nat_nonempty[of "m div 10"] show ?thesis
        by (simp add: show_nat.simps[of n] show_nat.simps[of m])
    qed
  next
    case n: False
    show ?thesis
    proof (cases "m < 10")
      case True
      with n 1(2) show_nat_nonempty[of "n div 10"] show ?thesis
        by (simp add: show_nat.simps[of n] show_nat.simps[of m])
    next
      case False
      with n 1(2) have e: "show_nat (n div 10) = show_nat (m div 10)" "digit (n mod 10) = digit (m mod 10)"
        by (simp_all add: show_nat.simps[of n] show_nat.simps[of m])
      from 1(1)[OF n e(1)] have "n div 10 = m div 10" .
      moreover from e(2) have "n mod 10 = m mod 10" by (intro digit_inj) simp_all
      ultimately show ?thesis by (metis div_mult_mod_eq)
    qed
  qed
qed

lemma distinct_names: "distinct (map show_nat [0..<n])"
  by (simp add: distinct_map inj_on_def show_nat_inj)

lemma index_lookup:
  "length ys = n \<Longrightarrow> map_of (zip (map show_nat [0..<n]) ys) (show_nat i) = (if i < n then Some (ys ! i) else None)"
proof (cases "i < n")
  case True
  assume l: "length ys = n"
  have "map_of (zip (map show_nat [0..<n]) ys) (map show_nat [0..<n] ! i) = Some (ys ! i)"
    using True l distinct_names[of n] by (intro map_of_zip_nth) simp_all
  with True show ?thesis by simp
next
  case False
  assume l: "length ys = n"
  have "show_nat i \<notin> set (map show_nat [0..<n])"
    using False by (auto dest: show_nat_inj)
  then have "map_of (zip (map show_nat [0..<n]) ys) (show_nat i) = None"
    using l by (simp add: map_of_zip_is_None)
  with False show ?thesis by simp
qed

lemma not_index_lookup:
  "\<not> set k \<subseteq> set ''0123456789'' \<Longrightarrow> length ys = n \<Longrightarrow> map_of (zip (map show_nat [0..<n]) ys) k = None"
proof -
  assume k: "\<not> set k \<subseteq> set ''0123456789''" and l: "length ys = n"
  have "k \<notin> set (map show_nat [0..<n])"
    using k show_nat_digits by auto
  then show ?thesis using l by (simp add: map_of_zip_is_None)
qed

lemma get_own_arr_index:
  "get_own (JArr xs) (show_nat i) = (if i < length xs then xs ! i else JUndefined)"
proof -
  have "show_nat i \<noteq> ''length''"
    using show_nat_digits[of i] by auto
  then show ?thesis by (simp add: get_own_def index_lookup)
qed

lemma get_own_arr_name:
  "\<not> set k \<subseteq> set ''0123456789'' \<Longrightarrow> k \<noteq> ''length'' \<Longrightarrow> get_own (JArr xs) k = JUndefined"
  by (simp add: get_own_def not_index_lookup)

lemma own_property_arr_index:
  "own_property (JArr xs) (show_nat i) = (if i < length xs then Some (xs ! i) else None)"
proof -
  have "show_nat i \<noteq> ''length''"
    using show_nat_digits[of i] by auto
  then show ?thesis by (simp add: index_lookup)
qed

section \<open>The scoring loop\<close>

lemma forEach_Some:
  "forEach ua qs i (sc, fb) = Some (sc', fb') \<Longrightarrow>
     \<exists>items. length items = length qs
       \<and> (\<forall>j<length qs. score_question ua (qs ! j) (i + j) = Some (items ! j))
       \<and> fb' = fb @ items \<and> sc' = sc + length (filter isCorrect items)"
proof (induction qs arbitrary: i sc fb)
  case Nil
  then show ?case by simp
next
  case (Cons q qs)
  from Cons.prems obtain item where
    item: "score_question ua q i = Some item" and
    rest: "forEach ua qs (Suc i) (if isCorrect item then Suc sc else sc, fb @ [item]) = Some (sc', fb')"
    by (auto split: option.splits)
  from Cons.IH[OF rest] obtain items where
    its: "length items = length qs"
      "\<forall>j<length qs. score_question ua (qs ! j) (Suc i + j) = Some (items ! j)"
      "fb' = (fb @ [item]) @ items"
      "sc' = (if isCorrect item then Suc sc else sc) + length (filter isCorrect items)"
    by blast
  have "\<forall>j<length (q # qs). score_question ua ((q # qs) ! j) (i + j) = Some ((item # items) ! j)"
  proof (intro allI impI)
    fix j assume "j < length (q # qs)"
    then show "score_question ua ((q # qs) ! j) (i + j) = Some ((item # items) ! j)"
      using item its(2) by (cases j) simp_all
  qed
  with its(1,3,4) show ?case
    by (intro exI[of _ "item # items"]) simp
qed

lemma forEach_defined:
  "(\<forall>j<length qs. score_question ua (qs ! j) (i + j) \<noteq> None) \<Longrightarrow> forEach ua qs i acc \<noteq> None"
proof (induction qs arbitrary: i acc)
  case Nil
  then show ?case by simp
next
  case (Cons q qs)
  obtain sc fb where acc: "acc = (sc, fb)" by (cases acc)
  from Cons.prems[rule_format, of 0] obtain item where item: "score_question ua q i = Some item"
    by auto
  have "\<forall>j<length qs. score_question ua (qs ! j) (Suc i + j) \<noteq> None"
  proof (intro allI impI)
    fix j assume "j < length qs"
    then show "score_question ua (qs ! j) (Suc i + j) \<noteq> None"
      using Cons.prems[rule_format, of "Suc j"] by simp
  qed
  from Cons.IH[OF this] show ?case using acc item by simp
qed

lemma forEach_cong:
  "length qs = length qs' \<Longrightarrow>
   (\<forall>j<length qs. score_question ua (qs ! j) (i + j) = score_question ua (qs' ! j) (i + j)) \<Longrightarrow>
   forEach ua qs i acc = forEach ua qs' i acc"
proof (induction qs arbitrary: qs' i acc)
  case Nil
  then show ?case by simp
next
  case (Cons q qs)
  then obtain q' qs'' where q': "qs' = q' # qs''" by (cases qs') auto
  obtain sc fb where acc: "acc = (sc, fb)" by (cases acc)
  from Cons.prems(2)[rule_format, of 0] q' have h: "score_question ua q i = score_question ua q' i"
    by simp
  have t: "\<forall>j<length qs. score_question ua (qs ! j) (Suc i + j) = score_question ua (qs'' ! j) (Suc i + j)"
  proof (intro allI impI)
    fix j assume "j < length qs"
    then show "score_question ua (qs ! j) (Suc i + j) = score_question ua (qs'' ! j) (Suc i + j)"
      using Cons.prems(2)[rule_format, of "Suc j"] q' by simp
  qed
  from Cons.prems(1) q' have l: "length qs = length qs''" by simp
  show ?case unfolding q' acc
    by (simp add: h Cons.IH[OF l t] split: option.splits)
qed

section \<open>What the handlers return\<close>

lemmas eval_defs = evaluate_quiz_def score_question_def index_or_def get_member_def get_own_def
  or_else_def show_int_def show_nat.simps digit_def Let_def

lemmas gen_defs = generate_quiz_def key_not_set_def on_error_def reply_text_def get_member_def
  get_own_def generic_failure_def log_def Let_def

text \<open>A feedback item is made of the fields the callback computes.\<close>

lemma score_question_fields:
  assumes "score_question ua q i = Some item"
  shows "index_or (or_else (get_own q ''options'') (JArr [])) (get_own ua (show_nat i))
           ''No answer provided'' = Some (userAnswer item)"
    and "index_or (or_else (get_own q ''options'') (JArr []))
           (or_else (get_own q ''correctIndex'') (JNum 0)) ''Correct answer missing''
           = Some (correctAnswer item)"
    and "isCorrect item
           = strict_eq (or_else (get_own q ''correctIndex'') (JNum 0)) (get_own ua (show_nat i))"
    and "question item = or_else (get_own q ''question'') (JStr ''Question text missing'')"
    and "explanation item = or_else (get_own q ''explanation'') (JStr ''No explanation provided.'')"
    and "q \<noteq> JUndefined" and "q \<noteq> JNull"
  using assms
  by (auto simp: score_question_def get_member_def Let_def split: option.splits if_splits)

text \<open>A score report comes from the loop over an array of questions.\<close>

lemma evaluate_quiz_report:
  assumes "fst (evaluate_quiz srv b) = Responded 200 (Report r)"
  shows "\<exists>qs. or_else (get_own (get_own b ''quizData'') ''questions'') (get_own b ''quizData'') = JArr qs
     \<and> total r = length qs \<and> length (feedback r) = length qs
     \<and> (\<forall>i<length qs. score_question (get_own b ''userAnswers'') (qs ! i) i = Some (feedback r ! i))
     \<and> score r = length (filter isCorrect (feedback r))"
proof -
  from assms obtain qs sc fb where
    qs: "or_else (get_own (get_own b ''quizData'') ''questions'') (get_own b ''quizData'') = JArr qs"
    and fe: "forEach (get_own b ''userAnswers'') qs 0 (0, []) = Some (sc, fb)"
    and r: "r = \<lparr> score = sc, total = length qs, feedback = fb \<rparr>"
    by (auto simp: evaluate_quiz_def get_member_def Let_def
        split: option.splits jsval.splits prod.splits if_splits)
  from forEach_Some[OF fe] obtain items where
    "length items = length qs"
    "\<forall>j<length qs. score_question (get_own b ''userAnswers'') (qs ! j) (0 + j) = Some (items ! j)"
    "fb = [] @ items" "sc = 0 + length (filter isCorrect items)"
    by blast
  with qs r show ?thesis by simp
qed

lemma evaluate_quiz_responds:
  assumes "b \<noteq> JUndefined" "b \<noteq> JNull"
    and "truthy (get_own b ''quizData'')" "truthy (get_own b ''userAnswers'')"
    and "or_else (get_own (get_own b ''quizData'') ''questions'') (get_own b ''quizData'') = JArr qs"
    and "\<forall>i<length qs. score_question (get_own b ''userAnswers'') (qs ! i) i \<noteq> None"
  shows "\<exists>r. fst (evaluate_quiz srv b) = Responded 200 (Report r)"
proof -
  from assms(6) have "\<forall>j<length qs. score_question (get_own b ''userAnswers'') (qs ! j) (0 + j) \<noteq> None"
    by simp
  from forEach_defined[OF this, of "(0, [])"] obtain sc fb where
    "forEach (get_own b ''userAnswers'') qs 0 (0, []) = Some (sc, fb)"
    by (cases "forEach (get_own b ''userAnswers'') qs 0 (0, [])") auto
  with assms(1-5) show ?thesis
    by (simp add: evaluate_quiz_def get_member_def)
qed

text \<open>The credential check, and what the \<^verbatim>\<open>catch\<close> block can answer.\<close>

lemma str_includes_iff: "str_includes s sub \<longleftrightarrow> (\<exists>l r. s = l @ sub @ r)"
proof (induction s)
  case Nil
  then show ?case by simp
next
  case (Cons c cs)
  show ?case
  proof
    assume "str_includes (c # cs) sub"
    then consider "take (length sub) (c # cs) = sub" | "str_includes cs sub" by auto
    then show "\<exists>l r. c # cs = l @ sub @ r"
    proof cases
      case 1
      then have "c # cs = [] @ sub @ drop (length sub) (c # cs)"
        by (metis append_Nil append_take_drop_id)
      then show ?thesis by blast
    next
      case 2
      with Cons.IH obtain l r where "cs = l @ sub @ r" by blast
      then have "c # cs = (c # l) @ sub @ r" by simp
      then show ?thesis by blast
    qed
  next
    assume "\<exists>l r. c # cs = l @ sub @ r"
    then obtain l r where e: "c # cs = l @ sub @ r" by blast
    show "str_includes (c # cs) sub"
    proof (cases l)
      case Nil
      with e have "take (length sub) (c # cs) = sub" by simp
      then show ?thesis by simp
    next
      case (Cons a l')
      with e have "cs = l' @ sub @ r" by simp
      with Cons.IH have "str_includes cs sub" by blast
      then show ?thesis by simp
    qed
  qed
qed

lemma key_not_set_iff:
  "key_not_set k \<longleftrightarrow>
     k = None \<or> k = Some [] \<or> k = Some ''paste_your_long_api_key_here''
       \<or> (\<exists>l r. k = Some (l @ ''!!!'' @ r))"
  by (cases k) (auto simp: key_not_set_def str_includes_iff)

lemma on_error_not_config:
  "fst (on_error err srv) \<noteq>
     Responded 500 (ErrorBody ''Server configuration error: API key is missing or not set. Please update backend/.env'')"
  by (simp add: on_error_def generic_failure_def Let_def split: caught.splits option.splits bool.splits)


lemma generate_quiz_not_config:
  assumes "\<not> key_not_set (GEMINI_API_KEY srv)"
  shows "fst (generate_quiz post parse srv b) \<noteq>
     Responded 500 (ErrorBody ''Server configuration error: API key is missing or not set. Please update backend/.env'')"
proof (cases "get_member b ''topic''")
  case None
  then show ?thesis by (simp add: generate_quiz_def)
next
  case (Some topic)
  show ?thesis
  proof (cases "to_string topic")
    case None
    with Some assms show ?thesis by (simp add: generate_quiz_def)
  next
    case (Some t)
    with \<open>get_member b ''topic'' = Some topic\<close> assms show ?thesis
      by (simp add: generate_quiz_def Let_def on_error_not_config
          split: axios_outcome.splits option.splits)
  qed
qed

text \<open>When the callback throws, and what the handler makes of the two payload shapes.\<close>

lemma index_or_None_iff: "index_or r key d = None \<longleftrightarrow> to_string key = None"
  by (simp add: index_or_def split: option.splits)

lemma to_string_or_else_zero: "to_string (or_else v (JNum 0)) = None \<longleftrightarrow> to_string v = None"
  by (cases v) (auto simp: or_else_def)

lemma score_question_None_iff:
  "score_question ua q i = None \<longleftrightarrow>
     q = JUndefined \<or> q = JNull \<or> to_string (get_own ua (show_nat i)) = None
       \<or> to_string (get_own q ''correctIndex'') = None"
proof -
  have "score_question ua q i = None \<longleftrightarrow>
     q = JUndefined \<or> q = JNull
     \<or> index_or (or_else (get_own q ''options'') (JArr [])) (get_own ua (show_nat i)) ''No answer provided'' = None
     \<or> index_or (or_else (get_own q ''options'') (JArr [])) (or_else (get_own q ''correctIndex'') (JNum 0)) ''Correct answer missing'' = None"
    by (auto simp: score_question_def get_member_def Let_def split: option.splits)
  then show ?thesis by (simp only: index_or_None_iff to_string_or_else_zero)
qed

lemma questions_resolved:
  assumes "quiz = JArr qs \<or> get_own quiz ''questions'' = JArr qs"
  shows "truthy quiz \<and> or_else (get_own quiz ''questions'') quiz = JArr qs"
proof -
  from assms consider "quiz = JArr qs" | "get_own quiz ''questions'' = JArr qs" by blast
  then show ?thesis
  proof cases
    case 1
    have "get_own (JArr qs) ''questions'' = JUndefined"
      by (rule get_own_arr_name) simp_all
    with 1 show ?thesis by (simp add: or_else_def)
  next
    case 2
    then have "quiz \<noteq> JUndefined" "quiz \<noteq> JNull" "\<forall>b. quiz \<noteq> JBool b" "\<forall>n. quiz \<noteq> JNum n"
      by (auto simp: get_own_def)
    moreover have "quiz \<noteq> JStr []" using 2 by (auto simp: get_own_def)
    ultimately have "truthy quiz" by (cases quiz) auto
    with 2 show ?thesis by (simp add: or_else_def)
  qed
qed

lemma body_present: "truthy (get_own b k) \<Longrightarrow> b \<noteq> JUndefined \<and> b \<noteq> JNull"
  by (auto simp: get_own_def)

lemma own_property_word:
  assumes "k = ''null'' \<or> k = ''undefined''"
    and "\<forall>kvs. r = JObj kvs \<longrightarrow> map_of kvs k = None"
  shows "own_property r k = None"
proof -
  from assms(1) have k: "\<not> set k \<subseteq> set ''0123456789''" "k \<noteq> ''length''" by auto
  show ?thesis
  proof (cases r)
    case (JArr xs)
    with k show ?thesis by (simp add: not_index_lookup)
  next
    case (JStr s)
    with k show ?thesis by (simp add: not_index_lookup)
  next
    case (JObj kvs)
    with assms(2) show ?thesis by simp
  qed simp_all
qed

lemma index_or_absent:
  assumes "a = JNull \<or> a = JUndefined"
    and "\<forall>kvs. r = JObj kvs \<longrightarrow> map_of kvs ''null'' = None \<and> map_of kvs ''undefined'' = None"
  shows "index_or r a d = Some (Val (JStr d))"
proof -
  from assms(2) have "own_property r ''null'' = None" "own_property r ''undefined'' = None"
    by (simp_all add: own_property_word del: own_property.simps)
  with assms(1) show ?thesis by (auto simp: index_or_def simp del: own_property.simps)
qed

lemma absent_never_correct:
  "a = JNull \<or> a = JUndefined \<Longrightarrow> \<not> strict_eq (or_else v (JNum 0)) a"
  by (cases v) (auto simp: or_else_def)

lemma score_question_falsy_index:
  assumes "\<not> truthy (get_own (JObj kvs) ''correctIndex'')"
  shows "score_question ua (JObj ((''correctIndex'', JNum 0) # kvs)) i = score_question ua (JObj kvs) i"
proof -
  have o: "get_own (JObj ((''correctIndex'', JNum 0) # kvs)) name = get_own (JObj kvs) name"
    if "name \<noteq> ''correctIndex''" for name
    using that by (simp add: get_own_def)
  have c: "or_else (get_own (JObj ((''correctIndex'', JNum 0) # kvs)) ''correctIndex'') (JNum 0)
      = or_else (get_own (JObj kvs) ''correctIndex'') (JNum 0)"
    using assms by (simp add: get_own_def or_else_def)
  have m: "get_member (JObj ((''correctIndex'', JNum 0) # kvs)) ''correctIndex'' = Some (JNum 0)"
    "get_member (JObj kvs) ''correctIndex'' = Some (get_own (JObj kvs) ''correctIndex'')"
    by (simp_all add: get_member_def get_own_def)
  have z: "or_else (JNum 0) (JNum 0) = or_else (get_own (JObj kvs) ''correctIndex'') (JNum 0)"
    using assms by (simp add: or_else_def)
  show ?thesis
    unfolding score_question_def m option.case z
      o[of "''options''", simplified] o[of "''question''", simplified]
      o[of "''explanation''", simplified]
    by (rule refl)
qed

lemma evaluate_quiz_cong:
  assumes "length qs = length qs'"
    and "\<forall>j<length qs. score_question ua (qs ! j) j = score_question ua (qs' ! j) j"
  shows "evaluate_quiz srv (JObj [(''quizData'', JArr qs), (''userAnswers'', ua)])
           = evaluate_quiz srv (JObj [(''quizData'', JArr qs'), (''userAnswers'', ua)])"
    and "evaluate_quiz srv (JObj [(''quizData'', JObj [(''questions'', JArr qs)]), (''userAnswers'', ua)])
           = evaluate_quiz srv (JObj [(''quizData'', JObj [(''questions'', JArr qs')]), (''userAnswers'', ua)])"
proof -
  from assms(2) have "\<forall>j<length qs. score_question ua (qs ! j) (0 + j) = score_question ua (qs' ! j) (0 + j)"
    by simp
  from forEach_cong[OF assms(1) this] have fe: "forEach ua qs 0 acc = forEach ua qs' 0 acc" for acc .
  have q: "get_own (JArr qs) ''questions'' = JUndefined" "get_own (JArr qs') ''questions'' = JUndefined"
    by (rule get_own_arr_name; simp)+
  show "evaluate_quiz srv (JObj [(''quizData'', JArr qs), (''userAnswers'', ua)])
           = evaluate_quiz srv (JObj [(''quizData'', JArr qs'), (''userAnswers'', ua)])"
    using assms(1) by (simp add: evaluate_quiz_def get_member_def get_own_def[of "JObj _"] q or_else_def fe
        split: option.splits prod.splits)
  show "evaluate_quiz srv (JObj [(''quizData'', JObj [(''questions'', JArr qs)]), (''userAnswers'', ua)])
           = evaluate_quiz srv (JObj [(''quizData'', JObj [(''questions'', JArr qs')]), (''userAnswers'', ua)])"
    using assms(1) by (simp add: evaluate_quiz_def get_member_def get_own_def[of "JObj _"] or_else_def fe
        split: option.splits prod.splits)
qed

lemma falsy_iff: "\<not> truthy v \<longleftrightarrow> v \<in> {JUndefined, JNull, JBool False, JNum 0, JStr []}"
  by (cases v) auto

section \<open>A reply that does not parse\<close>

text \<open>
  C1, as the spec states it: a reply whose transport succeeds but whose text is not
  parseable makes the generate operation fail with an error kind of its own, not with the
  generic failure. The handler has one \<^verbatim>\<open>catch\<close> block for everything the \<^verbatim>\<open>try\<close>
  block throws: here the answer to an unparsable reply is the answer to a request that got
  no response at all.
\<close>

theorem unparsable_reply_counterexample:
  "fst (generate_quiz
      (\<lambda>r. Resolved (JObj [(''candidates'', JArr [JObj [(''content'',
               JObj [(''parts'', JArr [JObj [(''text'', JStr ''Sorry, no quiz'')]])])]])]))
      (\<lambda>s. None)
      \<lparr> GEMINI_API_KEY = Some ''k'', console = [], outbound = [] \<rparr>
      (JObj [(''topic'', JStr ''Photosynthesis'')]))
   = fst (generate_quiz (\<lambda>r. RejectedNoResponse) (\<lambda>s. None)
      \<lparr> GEMINI_API_KEY = Some ''k'', console = [], outbound = [] \<rparr>
      (JObj [(''topic'', JStr ''Photosynthesis'')]))
   \<and> fst (generate_quiz (\<lambda>r. RejectedNoResponse) (\<lambda>s. None)
      \<lparr> GEMINI_API_KEY = Some ''k'', console = [], outbound = [] \<rparr>
      (JObj [(''topic'', JStr ''Photosynthesis'')]))
     = Responded 500 (ErrorBody ''Failed to generate quiz. An error occurred on the server.'')"
  by (simp add: gen_defs show_nat.simps digit_def)

text \<open>
  C1, amended. For every reply whose transport succeeds and whose text does not parse as
  JSON, the generate operation answers with the generic failure (status 500, "Failed to
  generate quiz. An error occurred on the server."), the answer it also gives when no
  response was received or the request could not be set up.
\<close>

theorem unparsable_reply_is_generic_failure:
  assumes "\<not> key_not_set (GEMINI_API_KEY srv)"
    and "get_member b ''topic'' = Some topic" and "to_string topic = Some t"
    and "post \<lparr> url = apiUrl (GEMINI_API_KEY srv), userQuery = userQuery_of t \<rparr> = Resolved data"
    and "reply_text data = Some (JStr s)" and "parse s = None"
  shows "fst (generate_quiz post parse srv b)
           = Responded 500 (ErrorBody ''Failed to generate quiz. An error occurred on the server.'')
       \<and> fst (generate_quiz post parse srv b) = fst (generate_quiz (\<lambda>r. RejectedNoResponse) parse srv b)
       \<and> fst (generate_quiz post parse srv b) = fst (generate_quiz (\<lambda>r. RejectedSetup) parse srv b)"
  using assms
  by (simp add: generate_quiz_def Let_def on_error_def generic_failure_def)

theorem unparsable_reply_is_generic_failure_witness:
  "fst (generate_quiz
      (\<lambda>r. Resolved (JObj [(''candidates'', JArr [JObj [(''content'',
               JObj [(''parts'', JArr [JObj [(''text'', JStr ''Sorry, no quiz'')]])])]])]))
      (\<lambda>s. None)
      \<lparr> GEMINI_API_KEY = Some ''k'', console = [], outbound = [] \<rparr>
      (JObj [(''topic'', JStr ''Photosynthesis'')]))
     = Responded 500 (ErrorBody ''Failed to generate quiz. An error occurred on the server.'')"
proof -
  let ?srv = "\<lparr> GEMINI_API_KEY = Some ''k'', console = [], outbound = [] \<rparr>"
  let ?b = "JObj [(''topic'', JStr ''Photosynthesis'')]"
  let ?data = "JObj [(''candidates'', JArr [JObj [(''content'',
               JObj [(''parts'', JArr [JObj [(''text'', JStr ''Sorry, no quiz'')]])])]])]"
  let ?post = "\<lambda>r::request. Resolved ?data"
  let ?parse = "\<lambda>s::string. None :: jsval option"
  have h1: "\<not> key_not_set (GEMINI_API_KEY ?srv)" by (simp add: key_not_set_def)
  have h2: "get_member ?b ''topic'' = Some (JStr ''Photosynthesis'')"
    by (simp add: get_member_def get_own_def)
  have h3: "to_string (JStr ''Photosynthesis'') = Some ''Photosynthesis''" by simp
  have h4: "?post \<lparr> url = apiUrl (GEMINI_API_KEY ?srv), userQuery = userQuery_of ''Photosynthesis'' \<rparr>
      = Resolved ?data" by simp
  have h5: "reply_text ?data = Some (JStr ''Sorry, no quiz'')"
    by (simp add: reply_text_def get_member_def get_own_def show_nat.simps digit_def)
  have h6: "?parse ''Sorry, no quiz'' = None" by simp
  from unparsable_reply_is_generic_failure[OF h1 h2 h3 h4 h5 h6] show ?thesis by simp
qed

section \<open>The default of the correct index\<close>

text \<open>
  C2, as the spec states it: a question whose stored correctIndex is not a valid index into
  its options, any out-of-range value included, is scored as if the correct index were 0.
  The handler replaces a correctIndex only when it is falsy. With two options and the
  stored index 5, the answer 0 is marked wrong and the correct answer is reported missing;
  were the index taken as 0, the answer would be right.
\<close>

theorem out_of_range_index_counterexample:
  "fst (evaluate_quiz \<lparr> GEMINI_API_KEY = None, console = [], outbound = [] \<rparr>
     (JObj [(''quizData'', JArr [JObj [(''question'', JStr ''q''),
                (''options'', JArr [JStr ''a'', JStr ''b'']), (''correctIndex'', JNum 5)]]),
            (''userAnswers'', JArr [JNum 0])]))
   = Responded 200 (Report \<lparr> score = 0, total = 1, feedback =
       [\<lparr> question = JStr ''q'', userAnswer = Val (JStr ''a''),
          correctAnswer = Val (JStr ''Correct answer missing''), isCorrect = False,
          explanation = JStr ''No explanation provided.'' \<rparr>] \<rparr>)
   \<and> fst (evaluate_quiz \<lparr> GEMINI_API_KEY = None, console = [], outbound = [] \<rparr>
     (JObj [(''quizData'', JArr [JObj [(''question'', JStr ''q''),
                (''options'', JArr [JStr ''a'', JStr ''b'']), (''correctIndex'', JNum 0)]]),
            (''userAnswers'', JArr [JNum 0])]))
   = Responded 200 (Report \<lparr> score = 1, total = 1, feedback =
       [\<lparr> question = JStr ''q'', userAnswer = Val (JStr ''a''),
          correctAnswer = Val (JStr ''a''), isCorrect = True,
          explanation = JStr ''No explanation provided.'' \<rparr>] \<rparr>)"
  by (simp add: eval_defs)

text \<open>
  C2, amended. For every question entry whose stored correctIndex is missing or falsy
  (undefined, null, false, 0 or the empty string), the evaluate operation scores that
  question as if the correct index were 0: the outcome of the evaluation is the one for the
  quiz in which that entry has correctIndex 0, in both payload shapes; and when the
  learner's answer at that position converts to a property name, the entry is scored
  without an exception, correct exactly when the answer is the number 0. In particular a
  question with correctIndex omitted is scored against index 0.
\<close>

theorem falsy_correct_index_scored_as_zero:
  assumes "i < length qs" and "qs ! i = JObj kvs"
    and "\<not> truthy (get_own (JObj kvs) ''correctIndex'')"
  shows "evaluate_quiz srv (JObj [(''quizData'', JArr qs), (''userAnswers'', ua)])
           = evaluate_quiz srv (JObj [(''quizData'',
                 JArr (qs[i := JObj ((''correctIndex'', JNum 0) # kvs)])), (''userAnswers'', ua)])
       \<and> evaluate_quiz srv (JObj [(''quizData'', JObj [(''questions'', JArr qs)]), (''userAnswers'', ua)])
           = evaluate_quiz srv (JObj [(''quizData'', JObj [(''questions'',
                 JArr (qs[i := JObj ((''correctIndex'', JNum 0) # kvs)]))]), (''userAnswers'', ua)])
       \<and> (to_string (get_own ua (show_nat i)) \<noteq> None \<longrightarrow>
            (\<exists>item. score_question ua (qs ! i) i = Some item
               \<and> isCorrect item = strict_eq (JNum 0) (get_own ua (show_nat i))))"
proof -
  let ?qs' = "qs[i := JObj ((''correctIndex'', JNum 0) # kvs)]"
  have l: "length qs = length ?qs'" by simp
  have e: "\<forall>j<length qs. score_question ua (qs ! j) j = score_question ua (?qs' ! j) j"
  proof (intro allI impI)
    fix j assume "j < length qs"
    then show "score_question ua (qs ! j) j = score_question ua (?qs' ! j) j"
      using assms by (cases "j = i") (simp_all add: score_question_falsy_index)
  qed
  have c: "\<exists>item. score_question ua (qs ! i) i = Some item
               \<and> isCorrect item = strict_eq (JNum 0) (get_own ua (show_nat i))"
    if a: "to_string (get_own ua (show_nat i)) \<noteq> None"
  proof -
    from assms(3) have "to_string (get_own (JObj kvs) ''correctIndex'') \<noteq> None"
      by (cases "get_own (JObj kvs) ''correctIndex''") auto
    with a assms(2) have "score_question ua (qs ! i) i \<noteq> None"
      by (simp add: score_question_None_iff)
    then obtain item where item: "score_question ua (qs ! i) i = Some item" by auto
    from score_question_fields(3)[OF item] assms(2,3)
    have "isCorrect item = strict_eq (JNum 0) (get_own ua (show_nat i))"
      by (simp add: or_else_def)
    with item show ?thesis by blast
  qed
  from evaluate_quiz_cong[OF l e] c show ?thesis by blast
qed

theorem falsy_correct_index_scored_as_zero_witness:
  "evaluate_quiz \<lparr> GEMINI_API_KEY = None, console = [], outbound = [] \<rparr>
     (JObj [(''quizData'', JArr [JObj [(''question'', JStr ''q''),
                (''options'', JArr [JStr ''a'', JStr ''b''])]]),
            (''userAnswers'', JArr [JNum 0])])
   = evaluate_quiz \<lparr> GEMINI_API_KEY = None, console = [], outbound = [] \<rparr>
     (JObj [(''quizData'', JArr [JObj [(''correctIndex'', JNum 0), (''question'', JStr ''q''),
                (''options'', JArr [JStr ''a'', JStr ''b''])]]),
            (''userAnswers'', JArr [JNum 0])])
   \<and> fst (evaluate_quiz \<lparr> GEMINI_API_KEY = None, console = [], outbound = [] \<rparr>
     (JObj [(''quizData'', JArr [JObj [(''question'', JStr ''q''),
                (''options'', JArr [JStr ''a'', JStr ''b''])]]),
            (''userAnswers'', JArr [JNum 0])]))
     = Responded 200 (Report \<lparr> score = 1, total = 1, feedback =
       [\<lparr> question = JStr ''q'', userAnswer = Val (JStr ''a''),
          correctAnswer = Val (JStr ''a''), isCorrect = True,
          explanation = JStr ''No explanation provided.'' \<rparr>] \<rparr>)"
proof -
  let ?kvs = "[(''question'', JStr ''q''), (''options'', JArr [JStr ''a'', JStr ''b''])]"
  have h1: "0 < length [JObj ?kvs]" by simp
  have h2: "[JObj ?kvs] ! 0 = JObj ?kvs" by simp
  have h3: "\<not> truthy (get_own (JObj ?kvs) ''correctIndex'')" by (simp add: get_own_def)
  from falsy_correct_index_scored_as_zero[OF h1 h2 h3,
      of "\<lparr> GEMINI_API_KEY = None, console = [], outbound = [] \<rparr>" "JArr [JNum 0]"]
  have "evaluate_quiz \<lparr> GEMINI_API_KEY = None, console = [], outbound = [] \<rparr>
     (JObj [(''quizData'', JArr [JObj ?kvs]), (''userAnswers'', JArr [JNum 0])])
   = evaluate_quiz \<lparr> GEMINI_API_KEY = None, console = [], outbound = [] \<rparr>
     (JObj [(''quizData'', JArr [JObj ((''correctIndex'', JNum 0) # ?kvs)]),
            (''userAnswers'', JArr [JNum 0])])"
    by simp
  moreover have "fst (evaluate_quiz \<lparr> GEMINI_API_KEY = None, console = [], outbound = [] \<rparr>
     (JObj [(''quizData'', JArr [JObj ?kvs]), (''userAnswers'', JArr [JNum 0])]))
     = Responded 200 (Report \<lparr> score = 1, total = 1, feedback =
       [\<lparr> question = JStr ''q'', userAnswer = Val (JStr ''a''),
          correctAnswer = Val (JStr ''a''), isCorrect = True,
          explanation = JStr ''No explanation provided.'' \<rparr>] \<rparr>)"
    by (simp add: eval_defs)
  ultimately show ?thesis by blast
qed

section \<open>Invalid input\<close>

text \<open>
  C3, as the spec states it: the evaluate operation fails with the invalid-input error
  exactly when quiz or answers is null or undefined, and returns a report for every pair of
  present inputs. The guard of the handler is \<^verbatim>\<open>!quizData || !userAnswers\<close>: the quiz
  \<^verbatim>\<open>false\<close> is present and is answered with the invalid-input error. And the handler
  throws on a quiz object without a questions array, and on a null entry.
\<close>

theorem shape_mismatch_counterexample:
  "fst (evaluate_quiz \<lparr> GEMINI_API_KEY = None, console = [], outbound = [] \<rparr>
     (JObj [(''quizData'', JBool False), (''userAnswers'', JArr [])]))
     = Responded 400 (ErrorBody ''Missing quiz data or user answers.'')
   \<and> fst (evaluate_quiz \<lparr> GEMINI_API_KEY = None, console = [], outbound = [] \<rparr>
     (JObj [(''quizData'', JObj []), (''userAnswers'', JArr [])]))
     = Uncaught
   \<and> fst (evaluate_quiz \<lparr> GEMINI_API_KEY = None, console = [], outbound = [] \<rparr>
     (JObj [(''quizData'', JArr [JNull]), (''userAnswers'', JArr [JNum 0])]))
     = Uncaught"
  by (simp add: eval_defs)

text \<open>
  C3, amended. For a request with a body, the evaluate operation answers with the
  invalid-input error (status 400) exactly when quizData or userAnswers is falsy: undefined,
  null, false, 0 or the empty string. When the quiz is an array of questions, bare or
  wrapped under \<^verbatim>\<open>questions\<close>, the answers are truthy, no entry of the quiz is null, and
  each correctIndex and each answer converts to a property name (as every value but an
  object with a \<^verbatim>\<open>toString\<close> property of its own does), it returns a score report with
  one feedback item per entry, whatever else the entries are or lack.
\<close>

theorem invalid_input_when_falsy:
  "(b \<noteq> JUndefined \<and> b \<noteq> JNull \<longrightarrow>
      (fst (evaluate_quiz srv b) = Responded 400 (ErrorBody ''Missing quiz data or user answers.'')
         \<longleftrightarrow> get_own b ''quizData'' \<in> {JUndefined, JNull, JBool False, JNum 0, JStr []}
           \<or> get_own b ''userAnswers'' \<in> {JUndefined, JNull, JBool False, JNum 0, JStr []}))
   \<and> ((get_own b ''quizData'' = JArr qs \<or> get_own (get_own b ''quizData'') ''questions'' = JArr qs)
        \<and> get_own b ''userAnswers'' \<notin> {JUndefined, JNull, JBool False, JNum 0, JStr []}
        \<and> (\<forall>i<length qs. qs ! i \<noteq> JUndefined \<and> qs ! i \<noteq> JNull
              \<and> to_string (get_own (qs ! i) ''correctIndex'') \<noteq> None
              \<and> to_string (get_own (get_own b ''userAnswers'') (show_nat i)) \<noteq> None)
      \<longrightarrow> (\<exists>r. fst (evaluate_quiz srv b) = Responded 200 (Report r)
             \<and> total r = length qs \<and> length (feedback r) = length qs))"
proof (intro conjI impI)
  assume bp: "b \<noteq> JUndefined \<and> b \<noteq> JNull"
  show "fst (evaluate_quiz srv b) = Responded 400 (ErrorBody ''Missing quiz data or user answers.'')
         \<longleftrightarrow> get_own b ''quizData'' \<in> {JUndefined, JNull, JBool False, JNum 0, JStr []}
           \<or> get_own b ''userAnswers'' \<in> {JUndefined, JNull, JBool False, JNum 0, JStr []}"
    unfolding falsy_iff[symmetric] using bp
    by (auto simp: evaluate_quiz_def get_member_def Let_def split: jsval.splits option.splits prod.splits)
next
  assume h: "(get_own b ''quizData'' = JArr qs \<or> get_own (get_own b ''quizData'') ''questions'' = JArr qs)
        \<and> get_own b ''userAnswers'' \<notin> {JUndefined, JNull, JBool False, JNum 0, JStr []}
        \<and> (\<forall>i<length qs. qs ! i \<noteq> JUndefined \<and> qs ! i \<noteq> JNull
              \<and> to_string (get_own (qs ! i) ''correctIndex'') \<noteq> None
              \<and> to_string (get_own (get_own b ''userAnswers'') (show_nat i)) \<noteq> None)"
  then have quiz: "get_own b ''quizData'' = JArr qs \<or> get_own (get_own b ''quizData'') ''questions'' = JArr qs"
    by blast
  from questions_resolved[OF quiz]
  have tq: "truthy (get_own b ''quizData'')"
    and rq: "or_else (get_own (get_own b ''quizData'') ''questions'') (get_own b ''quizData'') = JArr qs"
    by simp_all
  from body_present[OF tq] have bp: "b \<noteq> JUndefined" "b \<noteq> JNull" by simp_all
  from h have tu: "truthy (get_own b ''userAnswers'')" using falsy_iff by blast
  from h have def: "\<forall>i<length qs. score_question (get_own b ''userAnswers'') (qs ! i) i \<noteq> None"
    by (simp add: score_question_None_iff)
  from evaluate_quiz_responds[OF bp tq tu rq def] obtain r where
    r: "fst (evaluate_quiz srv b) = Responded 200 (Report r)" by blast
  from evaluate_quiz_report[OF r] rq have "total r = length qs" "length (feedback r) = length qs"
    by auto
  with r show "\<exists>r. fst (evaluate_quiz srv b) = Responded 200 (Report r)
             \<and> total r = length qs \<and> length (feedback r) = length qs"
    by blast
qed

theorem invalid_input_when_falsy_witness:
  "fst (evaluate_quiz \<lparr> GEMINI_API_KEY = None, console = [], outbound = [] \<rparr>
     (JObj [(''quizData'', JNum 0), (''userAnswers'', JArr [])]))
     = Responded 400 (ErrorBody ''Missing quiz data or user answers.'')
   \<and> (\<exists>r. fst (evaluate_quiz \<lparr> GEMINI_API_KEY = None, console = [], outbound = [] \<rparr>
     (JObj [(''quizData'', JArr [JNum 5]), (''userAnswers'', JStr ''x'')]))
     = Responded 200 (Report r) \<and> total r = 1 \<and> length (feedback r) = 1)"
proof -
  let ?srv = "\<lparr> GEMINI_API_KEY = None, console = [], outbound = [] \<rparr>"
  let ?b1 = "JObj [(''quizData'', JNum 0), (''userAnswers'', JArr [])]"
  let ?b2 = "JObj [(''quizData'', JArr [JNum 5]), (''userAnswers'', JStr ''x'')]"
  have p1: "?b1 \<noteq> JUndefined \<and> ?b1 \<noteq> JNull" by simp
  have f1: "get_own ?b1 ''quizData'' \<in> {JUndefined, JNull, JBool False, JNum 0, JStr []}"
    by (simp add: get_own_def)
  have h2: "(get_own ?b2 ''quizData'' = JArr [JNum 5]
          \<or> get_own (get_own ?b2 ''quizData'') ''questions'' = JArr [JNum 5])
        \<and> get_own ?b2 ''userAnswers'' \<notin> {JUndefined, JNull, JBool False, JNum 0, JStr []}
        \<and> (\<forall>i<length [JNum 5]. [JNum 5] ! i \<noteq> JUndefined \<and> [JNum 5] ! i \<noteq> JNull
              \<and> to_string (get_own ([JNum 5] ! i) ''correctIndex'') \<noteq> None
              \<and> to_string (get_own (get_own ?b2 ''userAnswers'') (show_nat i)) \<noteq> None)"
    by (simp add: get_own_def show_nat.simps digit_def)
  from invalid_input_when_falsy[of ?b1 ?srv] p1 f1
  have "fst (evaluate_quiz ?srv ?b1) = Responded 400 (ErrorBody ''Missing quiz data or user answers.'')"
    by blast
  moreover from invalid_input_when_falsy[of ?b2 ?srv "[JNum 5]"] h2
  have "\<exists>r. fst (evaluate_quiz ?srv ?b2) = Responded 200 (Report r)
          \<and> total r = length [JNum 5] \<and> length (feedback r) = length [JNum 5]"
    by blast
  ultimately show ?thesis by simp
qed

section \<open>The parsed reply is sent as it is\<close>

text \<open>
  C4, as the spec states it: the generate operation normalizes the parsed value, fails when
  it is neither an array of questions nor an object wrapping one, and gives a question
  without explanation the empty string. The handler sends what \<^verbatim>\<open>JSON.parse\<close> returned:
  the number 5 is answered with status 200 and the body 5, and a question that came without
  an explanation leaves without one.
\<close>

theorem normalisation_counterexample:
  "fst (generate_quiz
      (\<lambda>r. Resolved (JObj [(''candidates'', JArr [JObj [(''content'',
               JObj [(''parts'', JArr [JObj [(''text'', JStr ''5'')]])])]])]))
      (\<lambda>s. Some (JNum 5))
      \<lparr> GEMINI_API_KEY = Some ''k'', console = [], outbound = [] \<rparr>
      (JObj [(''topic'', JStr ''Photosynthesis'')]))
     = Responded 200 (Payload (JNum 5))
   \<and> fst (generate_quiz
      (\<lambda>r. Resolved (JObj [(''candidates'', JArr [JObj [(''content'',
               JObj [(''parts'', JArr [JObj [(''text'', JStr ''...'')]])])]])]))
      (\<lambda>s. Some (JObj [(''questions'', JArr [JObj [(''question'', JStr ''2+2?''),
               (''options'', JArr [JStr ''3'', JStr ''4'', JStr ''5'', JStr ''6'']),
               (''correctIndex'', JNum 1)]])]))
      \<lparr> GEMINI_API_KEY = Some ''k'', console = [], outbound = [] \<rparr>
      (JObj [(''topic'', JStr ''Photosynthesis'')]))
     = Responded 200 (Payload (JObj [(''questions'', JArr [JObj [(''question'', JStr ''2+2?''),
               (''options'', JArr [JStr ''3'', JStr ''4'', JStr ''5'', JStr ''6'']),
               (''correctIndex'', JNum 1)]])]))
   \<and> get_own (JObj [(''question'', JStr ''2+2?''),
               (''options'', JArr [JStr ''3'', JStr ''4'', JStr ''5'', JStr ''6'']),
               (''correctIndex'', JNum 1)]) ''explanation'' \<noteq> JStr []"
  by (simp add: gen_defs show_nat.simps digit_def)

text \<open>
  C4, amended. After parsing the external model's reply, the generate operation answers
  with status 200 and the parsed value itself, whatever its shape: a bare array, an object
  wrapping the array, or anything else; it rejects no shape and fills in no field.
\<close>

theorem parsed_reply_passed_through:
  assumes "\<not> key_not_set (GEMINI_API_KEY srv)"
    and "get_member b ''topic'' = Some topic" and "to_string topic = Some t"
    and "post \<lparr> url = apiUrl (GEMINI_API_KEY srv), userQuery = userQuery_of t \<rparr> = Resolved data"
    and "reply_text data = Some (JStr s)" and "parse s = Some quizJson"
  shows "fst (generate_quiz post parse srv b) = Responded 200 (Payload quizJson)"
  using assms
  by (simp add: generate_quiz_def Let_def)

theorem parsed_reply_passed_through_witness:
  "fst (generate_quiz
      (\<lambda>r. Resolved (JObj [(''candidates'', JArr [JObj [(''content'',
               JObj [(''parts'', JArr [JObj [(''text'', JStr ''[]'')]])])]])]))
      (\<lambda>s. Some (JArr []))
      \<lparr> GEMINI_API_KEY = Some ''k'', console = [], outbound = [] \<rparr>
      (JObj [(''topic'', JStr ''Photosynthesis'')]))
     = Responded 200 (Payload (JArr []))"
proof -
  let ?srv = "\<lparr> GEMINI_API_KEY = Some ''k'', console = [], outbound = [] \<rparr>"
  let ?b = "JObj [(''topic'', JStr ''Photosynthesis'')]"
  let ?data = "JObj [(''candidates'', JArr [JObj [(''content'',
               JObj [(''parts'', JArr [JObj [(''text'', JStr ''[]'')]])])]])]"
  let ?post = "\<lambda>r::request. Resolved ?data"
  let ?parse = "\<lambda>s::string. Some (JArr [])"
  have h1: "\<not> key_not_set (GEMINI_API_KEY ?srv)" by (simp add: key_not_set_def)
  have h2: "get_member ?b ''topic'' = Some (JStr ''Photosynthesis'')"
    by (simp add: get_member_def get_own_def)
  have h3: "to_string (JStr ''Photosynthesis'') = Some ''Photosynthesis''" by simp
  have h4: "?post \<lparr> url = apiUrl (GEMINI_API_KEY ?srv), userQuery = userQuery_of ''Photosynthesis'' \<rparr>
      = Resolved ?data" by simp
  have h5: "reply_text ?data = Some (JStr ''[]'')"
    by (simp add: reply_text_def get_member_def get_own_def show_nat.simps digit_def)
  have h6: "?parse ''[]'' = Some (JArr [])" by simp
  from parsed_reply_passed_through[OF h1 h2 h3 h4 h5 h6] show ?thesis by simp
qed

section \<open>All answers correct\<close>

text \<open>
  C5. For every quiz, sent as a bare array or wrapped under \<^verbatim>\<open>questions\<close>, in which each
  question's correctIndex is a valid index into its options, evaluating the quiz against the
  all-correct answers (at every position the answer is that question's correctIndex) yields
  a score report whose score equals its total, the number of questions.
\<close>

theorem all_correct_scores_total:
  assumes quiz: "get_own b ''quizData'' = JArr qs \<or> get_own (get_own b ''quizData'') ''questions'' = JArr qs"
    and ans: "get_own b ''userAnswers'' = JArr as"
    and ok: "\<forall>i<length qs. \<exists>os n. get_own (qs ! i) ''options'' = JArr os
                \<and> get_own (qs ! i) ''correctIndex'' = JNum (int n) \<and> n < length os
                \<and> i < length as \<and> as ! i = JNum (int n)"
  shows "\<exists>fb. fst (evaluate_quiz srv b)
           = Responded 200 (Report \<lparr> score = length qs, total = length qs, feedback = fb \<rparr>)"
proof -
  from questions_resolved[OF quiz]
  have tq: "truthy (get_own b ''quizData'')"
    and rq: "or_else (get_own (get_own b ''quizData'') ''questions'') (get_own b ''quizData'') = JArr qs"
    by simp_all
  from body_present[OF tq] have bp: "b \<noteq> JUndefined" "b \<noteq> JNull" by simp_all
  have tu: "truthy (get_own b ''userAnswers'')" using ans by simp
  have def: "\<forall>i<length qs. score_question (get_own b ''userAnswers'') (qs ! i) i \<noteq> None"
  proof (intro allI impI)
    fix i assume i: "i < length qs"
    with ok obtain os n where h: "get_own (qs ! i) ''correctIndex'' = JNum (int n)"
      "i < length as" "as ! i = JNum (int n)" by blast
    then have "qs ! i \<noteq> JUndefined" "qs ! i \<noteq> JNull" by (auto simp: get_own_def)
    with h show "score_question (get_own b ''userAnswers'') (qs ! i) i \<noteq> None"
      by (simp add: score_question_None_iff ans get_own_arr_index)
  qed
  from evaluate_quiz_responds[OF bp tq tu rq def] obtain r where
    r: "fst (evaluate_quiz srv b) = Responded 200 (Report r)" by blast
  from evaluate_quiz_report[OF r] rq have
    t: "total r = length qs" and l: "length (feedback r) = length qs"
    and f: "\<forall>i<length qs. score_question (get_own b ''userAnswers'') (qs ! i) i = Some (feedback r ! i)"
    and s: "score r = length (filter isCorrect (feedback r))"
    by auto
  have "\<forall>i<length (feedback r). isCorrect (feedback r ! i)"
  proof (intro allI impI)
    fix i assume "i < length (feedback r)"
    with l have i: "i < length qs" by simp
    with ok obtain os n where h: "get_own (qs ! i) ''correctIndex'' = JNum (int n)"
      "i < length as" "as ! i = JNum (int n)" by blast
    from f i have "score_question (get_own b ''userAnswers'') (qs ! i) i = Some (feedback r ! i)"
      by simp
    from score_question_fields(3)[OF this] h show "isCorrect (feedback r ! i)"
      by (simp add: ans get_own_arr_index or_else_def)
  qed
  then have "filter isCorrect (feedback r) = feedback r"
    by (auto simp: filter_id_conv in_set_conv_nth)
  with s l t have "r = \<lparr> score = length qs, total = length qs, feedback = feedback r \<rparr>"
    by simp
  with r show ?thesis by metis
qed


theorem all_correct_scores_total_witness:
  "\<exists>fb. fst (evaluate_quiz \<lparr> GEMINI_API_KEY = None, console = [], outbound = [] \<rparr>
     (JObj [(''quizData'', JObj [(''questions'',
        JArr [JObj [(''question'', JStr ''2+2?''),
                    (''options'', JArr [JStr ''3'', JStr ''4'', JStr ''5'', JStr ''6'']),
                    (''correctIndex'', JNum 1),
                    (''explanation'', JStr ''Basic arithmetic'')]])]),
            (''userAnswers'', JArr [JNum 1])]))
     = Responded 200 (Report \<lparr> score = 1, total = 1, feedback = fb \<rparr>)"
proof -
  let ?q = "JObj [(''question'', JStr ''2+2?''),
                    (''options'', JArr [JStr ''3'', JStr ''4'', JStr ''5'', JStr ''6'']),
                    (''correctIndex'', JNum 1),
                    (''explanation'', JStr ''Basic arithmetic'')]"
  let ?b = "JObj [(''quizData'', JObj [(''questions'', JArr [?q])]), (''userAnswers'', JArr [JNum 1])]"
  have h1: "get_own ?b ''quizData'' = JArr [?q] \<or> get_own (get_own ?b ''quizData'') ''questions'' = JArr [?q]"
    by (simp add: get_own_def)
  have h2: "get_own ?b ''userAnswers'' = JArr [JNum 1]"
    by (simp add: get_own_def)
  have h3: "\<forall>i<length [?q]. \<exists>os n. get_own ([?q] ! i) ''options'' = JArr os
                \<and> get_own ([?q] ! i) ''correctIndex'' = JNum (int n) \<and> n < length os
                \<and> i < length [JNum 1] \<and> [JNum 1] ! i = JNum (int n)"
    by (simp add: get_own_def)
  from all_correct_scores_total[OF h1 h2 h3] show ?thesis by simp
qed

section \<open>The evaluator is a function of the request\<close>

text \<open>
  C6. The evaluate operation is pure and deterministic: it leaves the server as it found it
  (nothing written to the console, nothing sent), and its response is the same whatever
  the state of the server it runs in, so that two invocations on the same quiz and answers,
  whatever happened in between, produce the same score report.
\<close>

theorem evaluate_quiz_pure:
  "snd (evaluate_quiz srv b) = srv \<and> fst (evaluate_quiz srv b) = fst (evaluate_quiz srv' b)"
  by (simp add: evaluate_quiz_def Let_def split: option.splits jsval.splits prod.splits)

theorem evaluate_quiz_pure_witness:
  "snd (evaluate_quiz \<lparr> GEMINI_API_KEY = None, console = [], outbound = [] \<rparr>
          (JObj [(''quizData'', JArr [JObj [(''correctIndex'', JNum 1)]]),
                 (''userAnswers'', JArr [JNum 1])]))
     = \<lparr> GEMINI_API_KEY = None, console = [], outbound = [] \<rparr>
   \<and> fst (evaluate_quiz \<lparr> GEMINI_API_KEY = None, console = [], outbound = [] \<rparr>
          (JObj [(''quizData'', JArr [JObj [(''correctIndex'', JNum 1)]]),
                 (''userAnswers'', JArr [JNum 1])]))
     = fst (evaluate_quiz \<lparr> GEMINI_API_KEY = Some ''k'', console = [LogSuccess], outbound = [] \<rparr>
          (JObj [(''quizData'', JArr [JObj [(''correctIndex'', JNum 1)]]),
                 (''userAnswers'', JArr [JNum 1])]))"
  by (rule evaluate_quiz_pure)

section \<open>No answer given\<close>

text \<open>
  C7. For every quiz, evaluating it against answers that are all the absence value (null,
  or nothing at that position) yields score 0 and, at every position, a feedback item whose
  \<open>userAnswer\<close> is the placeholder "No answer provided". A quiz is an array of questions,
  bare or wrapped; its entries are not null, their correctIndex is absent, a number or
  anything else that converts to a property name, and their options is anything but an
  object that has a property called \<^verbatim>\<open>null\<close> or \<^verbatim>\<open>undefined\<close> (an array of strings, as
  the data model has it, or absent).
\<close>

theorem unanswered_scores_zero:
  assumes quiz: "get_own b ''quizData'' = JArr qs \<or> get_own (get_own b ''quizData'') ''questions'' = JArr qs"
    and ans: "get_own b ''userAnswers'' = JArr as"
    and absent: "set as \<subseteq> {JNull, JUndefined}"
    and wf: "\<forall>q\<in>set qs. q \<noteq> JUndefined \<and> q \<noteq> JNull
               \<and> to_string (get_own q ''correctIndex'') \<noteq> None
               \<and> (\<forall>kvs. get_own q ''options'' = JObj kvs
                     \<longrightarrow> map_of kvs ''null'' = None \<and> map_of kvs ''undefined'' = None)"
  shows "\<exists>fb. fst (evaluate_quiz srv b)
             = Responded 200 (Report \<lparr> score = 0, total = length qs, feedback = fb \<rparr>)
           \<and> length fb = length qs
           \<and> (\<forall>item\<in>set fb. userAnswer item = Val (JStr ''No answer provided''))"
proof -
  from questions_resolved[OF quiz]
  have tq: "truthy (get_own b ''quizData'')"
    and rq: "or_else (get_own (get_own b ''quizData'') ''questions'') (get_own b ''quizData'') = JArr qs"
    by simp_all
  from body_present[OF tq] have bp: "b \<noteq> JUndefined" "b \<noteq> JNull" by simp_all
  have tu: "truthy (get_own b ''userAnswers'')" using ans by simp
  have a: "get_own (JArr as) (show_nat i) = JNull \<or> get_own (JArr as) (show_nat i) = JUndefined" for i
    using absent by (auto simp: get_own_arr_index subset_iff)
  have def: "\<forall>i<length qs. score_question (get_own b ''userAnswers'') (qs ! i) i \<noteq> None"
  proof (intro allI impI)
    fix i assume "i < length qs"
    then have "qs ! i \<in> set qs" by simp
    with wf a[of i] show "score_question (get_own b ''userAnswers'') (qs ! i) i \<noteq> None"
      by (auto simp: score_question_None_iff ans)
  qed
  from evaluate_quiz_responds[OF bp tq tu rq def] obtain r where
    r: "fst (evaluate_quiz srv b) = Responded 200 (Report r)" by blast
  from evaluate_quiz_report[OF r] rq have
    t: "total r = length qs" and l: "length (feedback r) = length qs"
    and f: "\<forall>i<length qs. score_question (get_own b ''userAnswers'') (qs ! i) i = Some (feedback r ! i)"
    and s: "score r = length (filter isCorrect (feedback r))"
    by auto
  have item: "\<not> isCorrect (feedback r ! i) \<and> userAnswer (feedback r ! i) = Val (JStr ''No answer provided'')"
    if i: "i < length qs" for i
  proof -
    from i have m: "qs ! i \<in> set qs" by simp
    from f i have sq: "score_question (get_own b ''userAnswers'') (qs ! i) i = Some (feedback r ! i)"
      by simp
    let ?opts = "or_else (get_own (qs ! i) ''options'') (JArr [])"
    from wf m have "\<forall>kvs. ?opts = JObj kvs \<longrightarrow> map_of kvs ''null'' = None \<and> map_of kvs ''undefined'' = None"
      by (auto simp: or_else_def)
    from index_or_absent[OF a[of i] this, of "''No answer provided''"] score_question_fields(1)[OF sq]
    have "userAnswer (feedback r ! i) = Val (JStr ''No answer provided'')"
      by (simp add: ans)
    moreover from score_question_fields(3)[OF sq] absent_never_correct[OF a[of i]]
    have "\<not> isCorrect (feedback r ! i)" by (simp add: ans)
    ultimately show ?thesis by simp
  qed
  have "filter isCorrect (feedback r) = []"
    using item l by (auto simp: filter_empty_conv in_set_conv_nth)
  with s t have "r = \<lparr> score = 0, total = length qs, feedback = feedback r \<rparr>" by simp
  moreover have "\<forall>x\<in>set (feedback r). userAnswer x = Val (JStr ''No answer provided'')"
    using item l by (auto simp: in_set_conv_nth)
  ultimately show ?thesis using r l by metis
qed


theorem unanswered_scores_zero_witness:
  "\<exists>fb. fst (evaluate_quiz \<lparr> GEMINI_API_KEY = None, console = [], outbound = [] \<rparr>
     (JObj [(''quizData'', JObj [(''questions'',
        JArr [JObj [(''question'', JStr ''2+2?''),
                    (''options'', JArr [JStr ''3'', JStr ''4'', JStr ''5'', JStr ''6'']),
                    (''correctIndex'', JNum 1),
                    (''explanation'', JStr ''Basic arithmetic'')]])]),
            (''userAnswers'', JArr [JNull])]))
     = Responded 200 (Report \<lparr> score = 0, total = 1, feedback = fb \<rparr>)
    \<and> length fb = 1
    \<and> userAnswer (fb ! 0) = Val (JStr ''No answer provided'')"
proof -
  let ?q = "JObj [(''question'', JStr ''2+2?''),
                    (''options'', JArr [JStr ''3'', JStr ''4'', JStr ''5'', JStr ''6'']),
                    (''correctIndex'', JNum 1),
                    (''explanation'', JStr ''Basic arithmetic'')]"
  let ?b = "JObj [(''quizData'', JObj [(''questions'', JArr [?q])]), (''userAnswers'', JArr [JNull])]"
  have h1: "get_own ?b ''quizData'' = JArr [?q] \<or> get_own (get_own ?b ''quizData'') ''questions'' = JArr [?q]"
    by (simp add: get_own_def)
  have h2: "get_own ?b ''userAnswers'' = JArr [JNull]"
    by (simp add: get_own_def)
  have h3: "set [JNull] \<subseteq> {JNull, JUndefined}" by simp
  have h4: "\<forall>q\<in>set [?q]. q \<noteq> JUndefined \<and> q \<noteq> JNull
               \<and> to_string (get_own q ''correctIndex'') \<noteq> None
               \<and> (\<forall>kvs. get_own q ''options'' = JObj kvs
                     \<longrightarrow> map_of kvs ''null'' = None \<and> map_of kvs ''undefined'' = None)"
    by (simp add: get_own_def)
  from unanswered_scores_zero[OF h1 h2 h3 h4] obtain fb where
    fb: "fst (evaluate_quiz \<lparr> GEMINI_API_KEY = None, console = [], outbound = [] \<rparr> ?b)
             = Responded 200 (Report \<lparr> score = 0, total = length [?q], feedback = fb \<rparr>)"
      "length fb = length [?q]"
      "\<forall>item\<in>set fb. userAnswer item = Val (JStr ''No answer provided'')"
    by blast
  from fb(2) have "fb ! 0 \<in> set fb" by simp
  with fb(3) have "userAnswer (fb ! 0) = Val (JStr ''No answer provided'')" by blast
  with fb(1,2) show ?thesis by (intro exI[of _ fb]) simp
qed

section \<open>The scenario of one question\<close>

text \<open>
  C8, as the spec states it: the quiz is the one question
  \<^verbatim>\<open>{text:"2+2?", options:["3","4","5","6"], correctIndex:1, explanation:"Basic arithmetic"}\<close>
  and the report for the answers \<^verbatim>\<open>[1]\<close> has \<^verbatim>\<open>question:"2+2?"\<close>. The handler reads the
  text of a question from its property \<^verbatim>\<open>question\<close>; under the name \<^verbatim>\<open>text\<close> it does not
  find it, and the report says "Question text missing".
\<close>

theorem scenario_text_counterexample:
  "fst (evaluate_quiz \<lparr> GEMINI_API_KEY = None, console = [], outbound = [] \<rparr>
     (JObj [(''quizData'', JObj [(''questions'',
        JArr [JObj [(''text'', JStr ''2+2?''),
                    (''options'', JArr [JStr ''3'', JStr ''4'', JStr ''5'', JStr ''6'']),
                    (''correctIndex'', JNum 1),
                    (''explanation'', JStr ''Basic arithmetic'')]])]),
            (''userAnswers'', JArr [JNum 1])]))
   = Responded 200 (Report \<lparr> score = 1, total = 1, feedback =
       [\<lparr> question = JStr ''Question text missing'', userAnswer = Val (JStr ''4''),
          correctAnswer = Val (JStr ''4''), isCorrect = True,
          explanation = JStr ''Basic arithmetic'' \<rparr>] \<rparr>)
   \<and> fst (evaluate_quiz \<lparr> GEMINI_API_KEY = None, console = [], outbound = [] \<rparr>
     (JObj [(''quizData'', JObj [(''questions'',
        JArr [JObj [(''text'', JStr ''2+2?''),
                    (''options'', JArr [JStr ''3'', JStr ''4'', JStr ''5'', JStr ''6'']),
                    (''correctIndex'', JNum 1),
                    (''explanation'', JStr ''Basic arithmetic'')]])]),
            (''userAnswers'', JArr [JNum 1])]))
   \<noteq> Responded 200 (Report \<lparr> score = 1, total = 1, feedback =
       [\<lparr> question = JStr ''2+2?'', userAnswer = Val (JStr ''4''),
          correctAnswer = Val (JStr ''4''), isCorrect = True,
          explanation = JStr ''Basic arithmetic'' \<rparr>] \<rparr>)"
  by (simp add: eval_defs)

text \<open>
  C8, amended. Evaluating the one-question quiz
  \<^verbatim>\<open>{question:"2+2?", options:["3","4","5","6"], correctIndex:1, explanation:"Basic arithmetic"}\<close>,
  sent wrapped under \<^verbatim>\<open>questions\<close> or as a bare array, against the answers \<^verbatim>\<open>[1]\<close> yields
  exactly score 1, total 1 and the one feedback item with question "2+2?", userAnswer "4",
  correctAnswer "4", isCorrect true and explanation "Basic arithmetic"; against \<^verbatim>\<open>[2]\<close>
  it yields isCorrect false with userAnswer "5" and correctAnswer "4" (and score 0).
\<close>

theorem scenario_one_question:
  "fst (evaluate_quiz srv
     (JObj [(''quizData'', JObj [(''questions'',
        JArr [JObj [(''question'', JStr ''2+2?''),
                    (''options'', JArr [JStr ''3'', JStr ''4'', JStr ''5'', JStr ''6'']),
                    (''correctIndex'', JNum 1),
                    (''explanation'', JStr ''Basic arithmetic'')]])]),
            (''userAnswers'', JArr [JNum 1])]))
   = Responded 200 (Report \<lparr> score = 1, total = 1, feedback =
       [\<lparr> question = JStr ''2+2?'', userAnswer = Val (JStr ''4''),
          correctAnswer = Val (JStr ''4''), isCorrect = True,
          explanation = JStr ''Basic arithmetic'' \<rparr>] \<rparr>)
   \<and> fst (evaluate_quiz srv
     (JObj [(''quizData'',
        JArr [JObj [(''question'', JStr ''2+2?''),
                    (''options'', JArr [JStr ''3'', JStr ''4'', JStr ''5'', JStr ''6'']),
                    (''correctIndex'', JNum 1),
                    (''explanation'', JStr ''Basic arithmetic'')]]),
            (''userAnswers'', JArr [JNum 1])]))
   = Responded 200 (Report \<lparr> score = 1, total = 1, feedback =
       [\<lparr> question = JStr ''2+2?'', userAnswer = Val (JStr ''4''),
          correctAnswer = Val (JStr ''4''), isCorrect = True,
          explanation = JStr ''Basic arithmetic'' \<rparr>] \<rparr>)
   \<and> fst (evaluate_quiz srv
     (JObj [(''quizData'', JObj [(''questions'',
        JArr [JObj [(''question'', JStr ''2+2?''),
                    (''options'', JArr [JStr ''3'', JStr ''4'', JStr ''5'', JStr ''6'']),
                    (''correctIndex'', JNum 1),
                    (''explanation'', JStr ''Basic arithmetic'')]])]),
            (''userAnswers'', JArr [JNum 2])]))
   = Responded 200 (Report \<lparr> score = 0, total = 1, feedback =
       [\<lparr> question = JStr ''2+2?'', userAnswer = Val (JStr ''5''),
          correctAnswer = Val (JStr ''4''), isCorrect = False,
          explanation = JStr ''Basic arithmetic'' \<rparr>] \<rparr>)
   \<and> fst (evaluate_quiz srv
     (JObj [(''quizData'',
        JArr [JObj [(''question'', JStr ''2+2?''),
                    (''options'', JArr [JStr ''3'', JStr ''4'', JStr ''5'', JStr ''6'']),
                    (''correctIndex'', JNum 1),
                    (''explanation'', JStr ''Basic arithmetic'')]]),
            (''userAnswers'', JArr [JNum 2])]))
   = Responded 200 (Report \<lparr> score = 0, total = 1, feedback =
       [\<lparr> question = JStr ''2+2?'', userAnswer = Val (JStr ''5''),
          correctAnswer = Val (JStr ''4''), isCorrect = False,
          explanation = JStr ''Basic arithmetic'' \<rparr>] \<rparr>)"
  by (simp add: eval_defs)

theorem scenario_one_question_witness:
  "fst (evaluate_quiz \<lparr> GEMINI_API_KEY = None, console = [], outbound = [] \<rparr>
     (JObj [(''quizData'', JObj [(''questions'',
        JArr [JObj [(''question'', JStr ''2+2?''),
                    (''options'', JArr [JStr ''3'', JStr ''4'', JStr ''5'', JStr ''6'']),
                    (''correctIndex'', JNum 1),
                    (''explanation'', JStr ''Basic arithmetic'')]])]),
            (''userAnswers'', JArr [JNum 1])]))
   = Responded 200 (Report \<lparr> score = 1, total = 1, feedback =
       [\<lparr> question = JStr ''2+2?'', userAnswer = Val (JStr ''4''),
          correctAnswer = Val (JStr ''4''), isCorrect = True,
          explanation = JStr ''Basic arithmetic'' \<rparr>] \<rparr>)"
  using scenario_one_question[of "\<lparr> GEMINI_API_KEY = None, console = [], outbound = [] \<rparr>"]
  by simp

section \<open>The credential is checked before the call\<close>

text \<open>
  C9. For every invocation of the generate operation with the credential absent (unset or
  empty) or set to a placeholder value (the template's text, or anything with three
  exclamation marks in it), nothing is sent to the external service and the outcome does
  not depend on the service; a request with a body is answered with the configuration error.
  That answer is distinct from a runtime generation failure: with a credential that passes
  the check, no outcome of the operation is the configuration error.
\<close>

theorem configuration_error_before_call:
  assumes "GEMINI_API_KEY srv = None \<or> GEMINI_API_KEY srv = Some []
      \<or> GEMINI_API_KEY srv = Some ''paste_your_long_api_key_here''
      \<or> (\<exists>l r. GEMINI_API_KEY srv = Some (l @ ''!!!'' @ r))"
  shows "outbound (snd (generate_quiz post parse srv b)) = outbound srv
    \<and> generate_quiz post parse srv b = generate_quiz post' parse' srv b
    \<and> (b \<noteq> JUndefined \<and> b \<noteq> JNull \<longrightarrow> fst (generate_quiz post parse srv b) =
          Responded 500 (ErrorBody ''Server configuration error: API key is missing or not set. Please update backend/.env''))
    \<and> (\<forall>srv2 post2 parse2 b2. \<not> key_not_set (GEMINI_API_KEY srv2) \<longrightarrow>
          fst (generate_quiz post2 parse2 srv2 b2) \<noteq>
          Responded 500 (ErrorBody ''Server configuration error: API key is missing or not set. Please update backend/.env''))"
proof -
  from assms have k: "key_not_set (GEMINI_API_KEY srv)" by (simp only: key_not_set_iff)
  have a: "outbound (snd (generate_quiz post parse srv b)) = outbound srv"
    using k by (simp add: generate_quiz_def log_def split: option.splits)
  have b: "generate_quiz post parse srv b = generate_quiz post' parse' srv b"
    using k by (simp add: generate_quiz_def split: option.splits)
  have c: "b \<noteq> JUndefined \<and> b \<noteq> JNull \<longrightarrow> fst (generate_quiz post parse srv b) =
          Responded 500 (ErrorBody ''Server configuration error: API key is missing or not set. Please update backend/.env'')"
    using k by (simp add: generate_quiz_def get_member_def)
  from a b c generate_quiz_not_config show ?thesis by blast
qed

theorem configuration_error_before_call_witness:
  "outbound (snd (generate_quiz (\<lambda>r. RejectedNoResponse) (\<lambda>s. None)
      \<lparr> GEMINI_API_KEY = Some ''paste_your_long_api_key_here'', console = [], outbound = [] \<rparr>
      (JObj [(''topic'', JStr ''Photosynthesis'')]))) = []
   \<and> fst (generate_quiz (\<lambda>r. RejectedNoResponse) (\<lambda>s. None)
      \<lparr> GEMINI_API_KEY = Some ''paste_your_long_api_key_here'', console = [], outbound = [] \<rparr>
      (JObj [(''topic'', JStr ''Photosynthesis'')]))
     = Responded 500 (ErrorBody ''Server configuration error: API key is missing or not set. Please update backend/.env'')"
proof -
  let ?srv = "\<lparr> GEMINI_API_KEY = Some ''paste_your_long_api_key_here'', console = [], outbound = [] \<rparr>"
  let ?b = "JObj [(''topic'', JStr ''Photosynthesis'')]"
  have key: "GEMINI_API_KEY ?srv = None \<or> GEMINI_API_KEY ?srv = Some []
      \<or> GEMINI_API_KEY ?srv = Some ''paste_your_long_api_key_here''
      \<or> (\<exists>l r. GEMINI_API_KEY ?srv = Some (l @ ''!!!'' @ r))"
    by simp
  have present: "?b \<noteq> JUndefined \<and> ?b \<noteq> JNull" by simp
  from configuration_error_before_call[OF key, of "\<lambda>r. RejectedNoResponse" "\<lambda>s. None" ?b] present
  show ?thesis by simp
qed

section \<open>Placeholders stand in for every falsy value\<close>

text \<open>
  C10. The evaluate operation substitutes its fixed placeholder strings whenever the
  resolved value is falsy, not only when it is absent. For the question at position \<open>i\<close>
  of a scored quiz: when the learner's index is in range and the option there is falsy
  (the empty string in particular), the item's \<open>userAnswer\<close> is "No answer provided";
  when the resolved correct index is in range and the option there is falsy, its
  \<open>correctAnswer\<close> is "Correct answer missing"; and when the question's explanation is
  falsy (the empty string in particular), its \<open>explanation\<close> is
  "No explanation provided.".
\<close>

theorem placeholder_when_falsy:
  assumes "fst (evaluate_quiz srv b) = Responded 200 (Report r)"
    and "or_else (get_own (get_own b ''quizData'') ''questions'') (get_own b ''quizData'') = JArr qs"
    and "i < length qs"
  shows "(get_own (qs ! i) ''options'' = JArr os
            \<and> get_own (get_own b ''userAnswers'') (show_nat i) = JNum (int n)
            \<and> n < length os \<and> \<not> truthy (os ! n)
          \<longrightarrow> userAnswer (feedback r ! i) = Val (JStr ''No answer provided''))
       \<and> (get_own (qs ! i) ''options'' = JArr os
            \<and> or_else (get_own (qs ! i) ''correctIndex'') (JNum 0) = JNum (int c)
            \<and> c < length os \<and> \<not> truthy (os ! c)
          \<longrightarrow> correctAnswer (feedback r ! i) = Val (JStr ''Correct answer missing''))
       \<and> (\<not> truthy (get_own (qs ! i) ''explanation'')
          \<longrightarrow> explanation (feedback r ! i) = JStr ''No explanation provided.'')"
proof -
  from evaluate_quiz_report[OF assms(1)] assms(2,3)
  have sq: "score_question (get_own b ''userAnswers'') (qs ! i) i = Some (feedback r ! i)"
    by auto
  have idx: "\<And>m d. m < length os \<Longrightarrow> \<not> truthy (os ! m) \<Longrightarrow>
      index_or (JArr os) (JNum (int m)) d = Some (Val (JStr d))"
    by (simp add: index_or_def show_int_def own_property_arr_index or_else_def del: own_property.simps)
  note f = score_question_fields[OF sq]
  show ?thesis
  proof (intro conjI impI)
    assume h: "get_own (qs ! i) ''options'' = JArr os
            \<and> get_own (get_own b ''userAnswers'') (show_nat i) = JNum (int n)
            \<and> n < length os \<and> \<not> truthy (os ! n)"
    with f(1) idx[of n] show "userAnswer (feedback r ! i) = Val (JStr ''No answer provided'')"
      by (simp add: or_else_def)
  next
    assume h: "get_own (qs ! i) ''options'' = JArr os
            \<and> or_else (get_own (qs ! i) ''correctIndex'') (JNum 0) = JNum (int c)
            \<and> c < length os \<and> \<not> truthy (os ! c)"
    with f(2) idx[of c] show "correctAnswer (feedback r ! i) = Val (JStr ''Correct answer missing'')"
      by (simp add: or_else_def)
  next
    assume "\<not> truthy (get_own (qs ! i) ''explanation'')"
    with f(5) show "explanation (feedback r ! i) = JStr ''No explanation provided.''"
      by (simp add: or_else_def)
  qed
qed

theorem placeholder_when_falsy_witness:
  "fst (evaluate_quiz \<lparr> GEMINI_API_KEY = None, console = [], outbound = [] \<rparr>
     (JObj [(''quizData'', JObj [(''questions'',
        JArr [JObj [(''question'', JStr ''q''), (''options'', JArr [JStr [], JStr ''b'']),
                    (''correctIndex'', JNum 0), (''explanation'', JStr [])]])]),
            (''userAnswers'', JArr [JNum 0])]))
   = Responded 200 (Report \<lparr> score = 1, total = 1, feedback =
       [\<lparr> question = JStr ''q'', userAnswer = Val (JStr ''No answer provided''),
          correctAnswer = Val (JStr ''Correct answer missing''),
          isCorrect = True, explanation = JStr ''No explanation provided.'' \<rparr>] \<rparr>)"
proof -
  let ?srv = "\<lparr> GEMINI_API_KEY = None, console = [], outbound = [] \<rparr>"
  let ?os = "[JStr [], JStr ''b'']"
  let ?q = "JObj [(''question'', JStr ''q''), (''options'', JArr ?os),
                    (''correctIndex'', JNum 0), (''explanation'', JStr [])]"
  let ?b = "JObj [(''quizData'', JObj [(''questions'', JArr [?q])]), (''userAnswers'', JArr [JNum 0])]"
  obtain r where r: "fst (evaluate_quiz ?srv ?b) = Responded 200 (Report r)"
    and v: "score r = 1" "total r = 1" "length (feedback r) = 1"
      "question (feedback r ! 0) = JStr ''q''" "isCorrect (feedback r ! 0)"
    by (simp add: eval_defs)
  have h2: "or_else (get_own (get_own ?b ''quizData'') ''questions'') (get_own ?b ''quizData'') = JArr [?q]"
    by (simp add: get_own_def or_else_def)
  have h3: "0 < length [?q]" by simp
  have u: "get_own ([?q] ! 0) ''options'' = JArr ?os
            \<and> get_own (get_own ?b ''userAnswers'') (show_nat 0) = JNum (int 0)
            \<and> 0 < length ?os \<and> \<not> truthy (?os ! 0)"
    by (simp add: get_own_def show_nat.simps digit_def)
  have c: "get_own ([?q] ! 0) ''options'' = JArr ?os
            \<and> or_else (get_own ([?q] ! 0) ''correctIndex'') (JNum 0) = JNum (int 0)
            \<and> 0 < length ?os \<and> \<not> truthy (?os ! 0)"
    by (simp add: get_own_def or_else_def)
  have e: "\<not> truthy (get_own ([?q] ! 0) ''explanation'')"
    by (simp add: get_own_def)
  from placeholder_when_falsy[OF r h2 h3, of ?os 0 0] u c e
  have "userAnswer (feedback r ! 0) = Val (JStr ''No answer provided'')"
    "correctAnswer (feedback r ! 0) = Val (JStr ''Correct answer missing'')"
    "explanation (feedback r ! 0) = JStr ''No explanation provided.''"
    by blast+
  with v have "feedback r ! 0 = \<lparr> question = JStr ''q'', userAnswer = Val (JStr ''No answer provided''),
          correctAnswer = Val (JStr ''Correct answer missing''),
          isCorrect = True, explanation = JStr ''No explanation provided.'' \<rparr>"
    by simp
  with v(3) have "feedback r = [\<lparr> question = JStr ''q'', userAnswer = Val (JStr ''No answer provided''),
          correctAnswer = Val (JStr ''Correct answer missing''),
          isCorrect = True, explanation = JStr ''No explanation provided.'' \<rparr>]"
    by (cases "feedback r") simp_all
  with v(1,2) have "r = \<lparr> score = 1, total = 1, feedback =
       [\<lparr> question = JStr ''q'', userAnswer = Val (JStr ''No answer provided''),
          correctAnswer = Val (JStr ''Correct answer missing''),
          isCorrect = True, explanation = JStr ''No explanation provided.'' \<rparr>] \<rparr>"
    by simp
  with r show ?thesis by simp
qed

end
